theory Spec2Isabelle
  imports Complex_Main "HOL-Library.Sublist"
begin

section \<open>Text primitives\<close>

text \<open>
  Python \<open>str\<close> values are modelled as \<open>string\<close>, a character being a Unicode code point
  below 256; texts with higher code points are outside the model. On this range
  \<open>isdigit\<close>, \<open>isupper\<close> and \<open>isspace\<close> are \<open>str.isdigit\<close>, \<open>str.isupper\<close> and
  \<open>str.isspace\<close> (which also decides \<open>str.strip\<close> and the regular expression class
  \<open>\s\<close>), and \<open>lower_char\<close> is \<open>str.lower\<close> on one character: every upper-case
  character of the range has its lower-case form 32 places further. Python floats are
  modelled as exact reals.
\<close>

definition isdigit :: "char \<Rightarrow> bool" where
  "isdigit c =
     (let n = (of_char c :: nat)
      in (0x30 \<le> n \<and> n \<le> 0x39) \<or> n = 0xB2 \<or> n = 0xB3 \<or> n = 0xB9)"

definition isupper :: "char \<Rightarrow> bool" where
  "isupper c =
     (let n = (of_char c :: nat)
      in (0x41 \<le> n \<and> n \<le> 0x5A) \<or> (0xC0 \<le> n \<and> n \<le> 0xD6) \<or> (0xD8 \<le> n \<and> n \<le> 0xDE))"

definition isspace :: "char \<Rightarrow> bool" where
  "isspace c =
     (let n = (of_char c :: nat)
      in (0x09 \<le> n \<and> n \<le> 0x0D) \<or> (0x1C \<le> n \<and> n \<le> 0x20) \<or> n = 0x85 \<or> n = 0xA0)"

definition lower_char :: "char \<Rightarrow> char" where
  "lower_char c = (if isupper c then char_of (of_char c + 32 :: nat) else c)"

definition lower :: "string \<Rightarrow> string" where
  "lower s = map lower_char s"

definition strip :: "string \<Rightarrow> string" where
  "strip s = rev (dropWhile isspace (rev (dropWhile isspace s)))"

definition startswith :: "string \<Rightarrow> string \<Rightarrow> bool" where
  "startswith s p = prefix p s"

definition endswith :: "string \<Rightarrow> string \<Rightarrow> bool" where
  "endswith s p = suffix p s"

text \<open>\<open>p in t\<close> on strings: \<open>p\<close> occurs in \<open>t\<close> as a contiguous substring.\<close>

fun py_in :: "string \<Rightarrow> string \<Rightarrow> bool" where
  "py_in p [] = (p = [])"
| "py_in p (c # cs) = (prefix p (c # cs) \<or> py_in p cs)"

text \<open>\<open>t.count(ch)\<close> for a one-character needle.\<close>

definition count_char :: "string \<Rightarrow> char \<Rightarrow> nat" where
  "count_char t ch = length (filter (\<lambda>c. c = ch) t)"

text \<open>
  \<open>re.findall(r"http[s]?://|www\.", t)\<close>: the scan goes left to right; at each
  position the first alternative is tried with the optional \<open>s\<close> taken greedily, then
  the second one; after a match the scan resumes behind it, otherwise one character
  further. The pattern carries no flag, so it matches these lower-case tokens only.
\<close>

fun findall_url_tokens :: "string \<Rightarrow> string list" where
  "findall_url_tokens [] = []"
| "findall_url_tokens (c # cs) =
     (if prefix ''https://'' (c # cs) then ''https://'' # findall_url_tokens (drop 8 (c # cs))
      else if prefix ''http://'' (c # cs) then ''http://'' # findall_url_tokens (drop 7 (c # cs))
      else if prefix ''www.'' (c # cs) then ''www.'' # findall_url_tokens (drop 4 (c # cs))
      else findall_url_tokens cs)"

section \<open>Process-wide stores\<close>

datatype py_error = ValueError | ModelError

record parse_result =
  netloc :: string
  path :: string

record feature_row =
  domain :: string
  dummy :: int

text \<open>
  The globals read by the pipeline. \<open>EMAIL_UNSAFE_PHRASES\<close> is a Python set; the list
  holds its elements once each, in the set's iteration order. \<open>url_model\<close> is \<open>None\<close>
  when no model is loaded; a loaded model maps a feature row to the class-1 probability
  or raises. \<open>urlparse\<close> stands for \<open>urllib.parse.urlparse\<close>, which is not part of the
  repository: it yields the parsed components or raises.
\<close>

record env =
  SAFE_URLS :: "string list"
  EMAIL_UNSAFE_PHRASES :: "string list"
  url_model :: "(feature_row \<Rightarrow> py_error + real) option"
  urlparse :: "string \<Rightarrow> py_error + parse_result"

section \<open>Meta-feature extractor\<close>

text \<open>
  One row of the array returned by \<open>extract_email_meta_features\<close>; the fields are the
  row's positions 0 to 5, all floats. The \<open>meta\<close> dictionary of an email result carries
  the same six numbers under the keys \<open>length\<close>, \<open>digit_ratio\<close>, \<open>upper_ratio\<close>,
  \<open>num_exclam\<close>, \<open>num_urls\<close> and \<open>num_urgent_terms\<close>.
\<close>

record meta_features =
  text_length :: real
  digit_ratio :: real
  upper_ratio :: real
  num_exclam :: real
  num_urls :: real
  num_urgent_terms :: real

definition meta_row :: "env \<Rightarrow> string \<Rightarrow> meta_features" where
  "meta_row e t =
     (let length' = length t;
          num_digits = length (filter isdigit t);
          digit_ratio' = real num_digits / real (max 1 length');
          num_upper = length (filter isupper t);
          upper_ratio' = real num_upper / real (max 1 length');
          num_exclam' = count_char t CHR ''!'';
          num_urls' = length (findall_url_tokens t);
          num_urgent = length (filter (\<lambda>phrase. py_in phrase (lower t)) (EMAIL_UNSAFE_PHRASES e))
      in \<lparr>text_length = real length', digit_ratio = digit_ratio', upper_ratio = upper_ratio',
          num_exclam = real num_exclam', num_urls = real num_urls',
          num_urgent_terms = real num_urgent\<rparr>)"

definition extract_email_meta_features :: "env \<Rightarrow> string list \<Rightarrow> meta_features list" where
  "extract_email_meta_features e texts = map (meta_row e) texts"

section \<open>Rule matcher and email classifier\<close>

record detection =
  label :: string
  binary_pred :: int

record email_result = detection +
  probability :: real
  score :: real
  meta :: meta_features

definition check_email_unsafe_by_rules :: "env \<Rightarrow> string \<Rightarrow> string list" where
  "check_email_unsafe_by_rules e text =
     (if EMAIL_UNSAFE_PHRASES e = [] then []
      else filter (\<lambda>p. py_in p (lower text)) (EMAIL_UNSAFE_PHRASES e))"

text \<open>
  The accumulation of \<open>suspicious_score\<close> in the branch of \<open>predict_email_with_model\<close>
  without a rule match: four independent tests on the row, each adding its weight.
\<close>

definition suspicious_score :: "meta_features \<Rightarrow> real" where
  "suspicious_score m =
     (let s = 0;
          s = (if digit_ratio m > 0.15 then s + 0.2 else s);
          s = (if upper_ratio m > 0.2 then s + 0.2 else s);
          s = (if num_exclam m > 3 then s + 0.15 else s);
          s = (if num_urls m > 2 then s + 0.25 else s)
      in s)"

definition predict_email_with_model :: "env \<Rightarrow> string \<Rightarrow> email_result" where
  "predict_email_with_model e text =
     (let meta' = hd (extract_email_meta_features e [text]);
          matched_phrases = check_email_unsafe_by_rules e text;
          (label', probability', binary_pred') =
            (if matched_phrases \<noteq> [] then
               (''Phishing Email'', min (0.85 + real (length matched_phrases) * 0.05) 0.98, 1)
             else if suspicious_score meta' > 0.4 then
               (''Phishing Email'', 0.6 + suspicious_score meta', 1)
             else
               (''Safe Email'', 0.1 + suspicious_score meta', 0))
      in \<lparr>label = label', binary_pred = binary_pred', probability = probability',
          score = probability' * 10, meta = meta'\<rparr>)"

section \<open>URL helpers\<close>

text \<open>
  The class \<open>\w\<close> of a pattern on \<open>str\<close>: the alphanumeric characters and the
  underscore, here on the code points below 256.
\<close>

definition is_word_char :: "char \<Rightarrow> bool" where
  "is_word_char c =
     (let n = (of_char c :: nat)
      in (0x30 \<le> n \<and> n \<le> 0x39) \<or> (0x41 \<le> n \<and> n \<le> 0x5A) \<or> n = 0x5F
         \<or> (0x61 \<le> n \<and> n \<le> 0x7A) \<or> n = 0xAA \<or> n = 0xB2 \<or> n = 0xB3 \<or> n = 0xB5
         \<or> n = 0xB9 \<or> n = 0xBA \<or> (0xBC \<le> n \<and> n \<le> 0xBE)
         \<or> (0xC0 \<le> n \<and> n \<le> 0xD6) \<or> (0xD8 \<le> n \<and> n \<le> 0xF6) \<or> 0xF8 \<le> n)"

text \<open>The character class \<open>[^\s<>"'\)\]]\<close> of \<open>URL_REGEX\<close>.\<close>

definition url_char :: "char \<Rightarrow> bool" where
  "url_char c = (\<not> isspace c \<and>
     c \<notin> {CHR ''<'', CHR ''>'', CHR 0x22, CHR 0x27, CHR '')'', CHR '']''})"

text \<open>
  Length of the alternative \<open>(?:https?://|www\.)\<close> matched case-insensitively at the
  head of the string, 0 when none matches.
\<close>

definition scheme_len :: "string \<Rightarrow> nat" where
  "scheme_len s =
     (if lower (take 8 s) = ''https://'' then 8
      else if lower (take 7 s) = ''http://'' then 7
      else if lower (take 4 s) = ''www.'' then 4
      else 0)"

text \<open>
  \<open>URL_REGEX.findall\<close>: the flag \<open>w\<close> says whether the character before the current
  position is a word character, which decides \<open>\b\<close> (the token starts with a letter).
  A match is the scheme followed by the longest non-empty run of \<open>url_char\<close>s; the scan
  resumes behind the match.
\<close>

function findall_urls :: "bool \<Rightarrow> string \<Rightarrow> string list" where
  "findall_urls w [] = []"
| "findall_urls w (c # cs) =
     (if \<not> w \<and> 0 < scheme_len (c # cs)
         \<and> takeWhile url_char (drop (scheme_len (c # cs)) (c # cs)) \<noteq> []
      then (take (scheme_len (c # cs)) (c # cs)
              @ takeWhile url_char (drop (scheme_len (c # cs)) (c # cs)))
           # findall_urls
               (is_word_char (last (takeWhile url_char (drop (scheme_len (c # cs)) (c # cs)))))
               (dropWhile url_char (drop (scheme_len (c # cs)) (c # cs)))
      else findall_urls (is_word_char c) cs)"
  by pat_completeness auto
termination
proof (relation "measure (\<lambda>(w, s). length s)")
  fix w :: bool and c :: char and cs :: string
  assume "\<not> w \<and> 0 < scheme_len (c # cs)
          \<and> takeWhile url_char (drop (scheme_len (c # cs)) (c # cs)) \<noteq> []"
  then have "0 < scheme_len (c # cs)"
    by simp
  then have "length (drop (scheme_len (c # cs)) (c # cs)) < length (c # cs)"
    by simp
  moreover have "length (dropWhile url_char (drop (scheme_len (c # cs)) (c # cs)))
                 \<le> length (drop (scheme_len (c # cs)) (c # cs))"
    by (rule length_dropWhile_le)
  ultimately show
    "((is_word_char (last (takeWhile url_char (drop (scheme_len (c # cs)) (c # cs)))),
       dropWhile url_char (drop (scheme_len (c # cs)) (c # cs))), (w, c # cs))
     \<in> measure (\<lambda>(w, s). length s)"
    by simp
qed simp_all

definition extract_urls :: "string \<Rightarrow> string list" where
  "extract_urls email_text =
     (let hits = findall_urls False email_text
      in map (\<lambda>u. if startswith (lower u) ''http://'' \<or> startswith (lower u) ''https://''
                   then u else ''http://'' @ u) hits)"

text \<open>
  \<open>parsed.netloc or parsed.path\<close> takes the path when the network location is empty; a
  parse that raises makes the URL itself the domain.
\<close>

definition parse_domain_and_path :: "env \<Rightarrow> string \<Rightarrow> string \<times> string \<times> string" where
  "parse_domain_and_path e url' =
     (let domain' = (case urlparse e url' of
                       Inr parsed \<Rightarrow> (if netloc parsed \<noteq> [] then netloc parsed else path parsed)
                     | Inl err \<Rightarrow> url')
      in (lower domain', [], []))"

text \<open>\<open>domain.split(":")[0]\<close> is the text before the first colon.\<close>

definition normalize_domain_for_check :: "string \<Rightarrow> string" where
  "normalize_domain_for_check domain' =
     (let d = strip (lower (takeWhile (\<lambda>c. c \<noteq> CHR '':'') domain'))
      in if startswith d ''www.'' then drop 4 d else d)"

fun safe_urls_loop :: "string \<Rightarrow> string list \<Rightarrow> bool" where
  "safe_urls_loop d [] = False"
| "safe_urls_loop d (s # ss) =
     (if d = s \<or> endswith d (''.'' @ s) then True else safe_urls_loop d ss)"

definition is_known_safe_domain :: "env \<Rightarrow> string \<Rightarrow> bool" where
  "is_known_safe_domain e domain' =
     safe_urls_loop (normalize_domain_for_check domain') (SAFE_URLS e)"

definition build_model_ready_url_features :: "env \<Rightarrow> string \<Rightarrow> feature_row" where
  "build_model_ready_url_features e url' =
     (case parse_domain_and_path e url' of (domain', _, _) \<Rightarrow> \<lparr>domain = domain', dummy = 1\<rparr>)"

section \<open>URL classifier\<close>

record url_pred = detection +
  confidence :: real

record url_result = url_pred +
  url :: string

text \<open>
  Every function that may invoke the model returns, next to its result, the list of
  feature rows handed to \<open>predict_proba\<close>, in call order. The \<open>try\<close> block covers the
  construction of the data frame and the model call, so any exception there is the
  \<open>Inl\<close> answer of the model and becomes the probability 0.5.
\<close>

definition predict_url_from_features :: "env \<Rightarrow> feature_row \<Rightarrow> url_pred \<times> feature_row list" where
  "predict_url_from_features e row =
     (case url_model e of
        None \<Rightarrow> (\<lparr>label = ''Suspicious URL'', binary_pred = - 1, confidence = 0.5\<rparr>, [])
      | Some predict_proba \<Rightarrow>
          (let proba = (case predict_proba row of Inr p \<Rightarrow> p | Inl err \<Rightarrow> 0.5)
           in if proba < 0.5
              then (\<lparr>label = ''Suspicious URL'', binary_pred = - 1, confidence = proba\<rparr>, [row])
              else (\<lparr>label = ''Phishing URL'', binary_pred = 1, confidence = proba\<rparr>, [row])))"

definition predict_url :: "env \<Rightarrow> string \<Rightarrow> url_result \<times> feature_row list" where
  "predict_url e url' =
     (case parse_domain_and_path e url' of (domain', _, _) \<Rightarrow>
        if is_known_safe_domain e domain'
        then (\<lparr>label = ''Safe URL'', binary_pred = 0, confidence = 0.98, url = url'\<rparr>, [])
        else (case predict_url_from_features e (build_model_ready_url_features e url') of
                (res, calls) \<Rightarrow>
                  (\<lparr>label = label res, binary_pred = binary_pred res,
                    confidence = confidence res, url = url'\<rparr>, calls)))"

fun predict_urls_loop :: "env \<Rightarrow> string list \<Rightarrow> url_result list \<times> feature_row list" where
  "predict_urls_loop e [] = ([], [])"
| "predict_urls_loop e (u # us) =
     (case predict_url e u of (res, calls) \<Rightarrow>
        (case predict_urls_loop e us of (results, calls') \<Rightarrow> (res # results, calls @ calls')))"

definition predict_urls_in_text :: "env \<Rightarrow> string \<Rightarrow> url_result list \<times> feature_row list" where
  "predict_urls_in_text e email_text = predict_urls_loop e (extract_urls email_text)"

section \<open>Hybrid fuser\<close>

record hybrid_result =
  final_label :: string
  final_proba :: real
  final_binary_pred :: int
  email_branch :: email_result
  url_branch :: "url_result list"

definition hybrid_predict :: "env \<Rightarrow> string \<Rightarrow> hybrid_result \<times> feature_row list" where
  "hybrid_predict e email_text =
     (let matched = check_email_unsafe_by_rules e email_text;
          email_res =
            (if matched \<noteq> [] then
               \<lparr>label = ''Phishing Email'', binary_pred = 1, probability = 0.98, score = 9.6,
                meta = hd (extract_email_meta_features e [email_text])\<rparr>
             else predict_email_with_model e email_text)
      in case predict_urls_in_text e email_text of (url_res_list, calls) \<Rightarrow>
           if list_ex (\<lambda>u. label u = ''Safe URL'') url_res_list then
             (\<lparr>final_label = ''Safe Content'', final_proba = 0.98, final_binary_pred = 0,
               email_branch = email_res, url_branch = url_res_list\<rparr>, calls)
           else
             (let url_proba = (if url_res_list \<noteq> []
                               then sum_list (map confidence url_res_list)
                                    / real (length url_res_list)
                               else 0.5);
                  final_proba' = (probability email_res + url_proba) / 2;
                  final_binary_pred' = (if final_proba' \<ge> 0.5 then 1 else 0);
                  final_label' = (if final_binary_pred' = 1 then ''Phishing Content''
                                  else ''Safe Content'')
              in (\<lparr>final_label = final_label', final_proba = final_proba',
                   final_binary_pred = final_binary_pred', email_branch = email_res,
                   url_branch = url_res_list\<rparr>, calls)))"

section \<open>Explanation generator\<close>

text \<open>
  The \<open>result\<close> argument of \<open>generate_ai_explanation\<close> is a dictionary read with
  \<open>get\<close>: every key the function looks up is an optional field here, \<open>None\<close> when
  the key is absent. The three functions below are the dictionaries built by the
  classifiers, seen this way.
\<close>

record result_dict =
  get_binary_pred :: "int option"
  get_probability :: "real option"
  get_confidence :: "real option"
  get_final_proba :: "real option"
  get_final_binary_pred :: "int option"
  get_email_branch :: "email_result option"
  get_url_branch :: "url_result list option"

definition email_dict :: "email_result \<Rightarrow> result_dict" where
  "email_dict r =
     \<lparr>get_binary_pred = Some (binary_pred r), get_probability = Some (probability r),
      get_confidence = None, get_final_proba = None, get_final_binary_pred = None,
      get_email_branch = None, get_url_branch = None\<rparr>"

definition url_dict :: "url_result \<Rightarrow> result_dict" where
  "url_dict r =
     \<lparr>get_binary_pred = Some (binary_pred r), get_probability = None,
      get_confidence = Some (confidence r), get_final_proba = None,
      get_final_binary_pred = None, get_email_branch = None, get_url_branch = None\<rparr>"

definition hybrid_dict :: "hybrid_result \<Rightarrow> result_dict" where
  "hybrid_dict r =
     \<lparr>get_binary_pred = None, get_probability = None, get_confidence = None,
      get_final_proba = Some (final_proba r),
      get_final_binary_pred = Some (final_binary_pred r),
      get_email_branch = Some (email_branch r), get_url_branch = Some (url_branch r)\<rparr>"

text \<open>
  An explanation line is one of the function's message templates together with the
  numbers it interpolates; the rendering of the numbers into text is not modelled.
\<close>

datatype explanation =
    EmailHighRisk
  | EmailUrgentLanguage real
  | EmailExcessiveCapitalization real
  | EmailExcessivePunctuation real
  | EmailSuspiciousLinks real
  | EmailRecommendation
  | EmailLowRisk
  | EmailAnalysis
  | EmailNote
  | UrlMalicious
  | UrlDomainAnalysis
  | UrlRecommendation
  | UrlSuspicious
  | UrlSuspiciousAnalysis
  | UrlSuspiciousRecommendation
  | UrlSafe
  | UrlDomainVerification
  | UrlNote
  | HybridThreat
  | HybridEmailRisk
  | HybridMaliciousLinks nat
  | HybridCriticalAction
  | HybridSafetyCheck
  | HybridTrustedDomains nat
  | HybridBestPractice
  | HighConfidence real
  | ModerateConfidence real
  | LowerConfidence real

datatype tier = High | Moderate | Lower

fun tier_of :: "explanation \<Rightarrow> tier option" where
  "tier_of (HighConfidence c) = Some High"
| "tier_of (ModerateConfidence c) = Some Moderate"
| "tier_of (LowerConfidence c) = Some Lower"
| "tier_of other = None"

definition generate_ai_explanation ::
  "string \<Rightarrow> result_dict \<Rightarrow> string \<Rightarrow> meta_features option \<Rightarrow> explanation list" where
  "generate_ai_explanation mode result input_text meta_features =
     (let explanations =
        (if mode = ''email'' then
           (if get_binary_pred result = Some 1 then
              [EmailHighRisk]
              @ (case meta_features of
                   None \<Rightarrow> []
                 | Some m \<Rightarrow>
                     (if num_urgent_terms m > 0 then [EmailUrgentLanguage (num_urgent_terms m)]
                      else [])
                     @ (if upper_ratio m > 0.1 then [EmailExcessiveCapitalization (upper_ratio m)]
                        else [])
                     @ (if num_exclam m > 2 then [EmailExcessivePunctuation (num_exclam m)]
                        else [])
                     @ (if num_urls m > 0 then [EmailSuspiciousLinks (num_urls m)] else []))
              @ [EmailRecommendation]
            else [EmailLowRisk, EmailAnalysis, EmailNote])
         else if mode = ''url'' then
           (if get_binary_pred result = Some 1 then
              [UrlMalicious, UrlDomainAnalysis, UrlRecommendation]
            else if get_binary_pred result = Some (- 1) then
              [UrlSuspicious, UrlSuspiciousAnalysis, UrlSuspiciousRecommendation]
            else [UrlSafe, UrlDomainVerification, UrlNote])
         else if mode = ''hybrid'' then
           (let final_pred = (case get_final_binary_pred result of Some p \<Rightarrow> p | None \<Rightarrow> 0);
                email_branch' = get_email_branch result;
                url_branch' = (case get_url_branch result of Some us \<Rightarrow> us | None \<Rightarrow> [])
            in if final_pred = 1 then
                 [HybridThreat]
                 @ (if map_option binary_pred email_branch' = Some 1 then [HybridEmailRisk]
                    else [])
                 @ (if url_branch' \<noteq> [] \<and> list_ex (\<lambda>u. binary_pred u = 1) url_branch'
                    then [HybridMaliciousLinks
                            (length (filter (\<lambda>u. binary_pred u = 1) url_branch'))]
                    else [])
                 @ [HybridCriticalAction]
               else
                 [HybridSafetyCheck]
                 @ (if url_branch' \<noteq> [] \<and> list_ex (\<lambda>u. label u = ''Safe URL'') url_branch'
                    then [HybridTrustedDomains
                            (length (filter (\<lambda>u. label u = ''Safe URL'') url_branch'))]
                    else [])
                 @ [HybridBestPractice])
         else []);
          confidence' =
            (case get_probability result of
               Some p \<Rightarrow> p
             | None \<Rightarrow>
                 (case get_confidence result of
                    Some c \<Rightarrow> c
                  | None \<Rightarrow> (case get_final_proba result of Some f \<Rightarrow> f | None \<Rightarrow> 0)))
      in explanations
         @ [if confidence' > 0.9 then HighConfidence confidence'
            else if confidence' > 0.7 then ModerateConfidence confidence'
            else LowerConfidence confidence'])"

section \<open>The specification's wording, for comparison\<close>

text \<open>
  The confidence tiers as the specification words them: High from 0.9 on, Moderate
  from 0.7 on, Lower otherwise.
\<close>

definition spec_confidence_tier :: "real \<Rightarrow> tier" where
  "spec_confidence_tier c = (if c \<ge> 0.9 then High else if c \<ge> 0.7 then Moderate else Lower)"

text \<open>
  Domain normalisation as the specification words it: lower-case, drop the text after
  the last colon together with that colon, drop one leading \<open>www.\<close>; and the
  membership test on the result.
\<close>

definition spec_strip_port :: "string \<Rightarrow> string" where
  "spec_strip_port d =
     (if CHR '':'' \<in> set d then rev (tl (dropWhile (\<lambda>c. c \<noteq> CHR '':'') (rev d))) else d)"

definition spec_normalize_domain :: "string \<Rightarrow> string" where
  "spec_normalize_domain d =
     (let n = spec_strip_port (lower d) in if prefix ''www.'' n then drop 4 n else n)"

definition spec_is_safe_domain :: "string list \<Rightarrow> string \<Rightarrow> bool" where
  "spec_is_safe_domain trusted d =
     list_ex (\<lambda>s. spec_normalize_domain d = s \<or> suffix (''.'' @ s) (spec_normalize_domain d))
       trusted"



section \<open>Example stores\<close>

text \<open>
  A table of \<open>urllib.parse.urlparse\<close> on the URLs of the worked examples, used only to
  build example stores: it is the library function on the three listed URLs and on no
  other string, and no statement below applies it to another string.
\<close>

definition urlparse_examples :: "string \<Rightarrow> py_error + parse_result" where
  "urlparse_examples u =
     (if u = ''http://paypal.com/login'' then Inr \<lparr>netloc = ''paypal.com'', path = ''/login''\<rparr>
      else if u = ''http://evil.example/x'' then Inr \<lparr>netloc = ''evil.example'', path = ''/x''\<rparr>
      else if u = ''http://bank.com:x@evil.com:80/''
        then Inr \<lparr>netloc = ''bank.com:x@evil.com:80'', path = ''/''\<rparr>
      else Inr \<lparr>netloc = [], path = u\<rparr>)"

definition env_no_model :: env where
  "env_no_model =
     \<lparr>SAFE_URLS = [''paypal.com'', ''bank.com''],
      EMAIL_UNSAFE_PHRASES = [''verify'', ''urgent''],
      url_model = None,
      urlparse = urlparse_examples\<rparr>"

text \<open>A loaded model whose every invocation raises, and one that always answers 0.99.\<close>

definition env_failing_model :: env where
  "env_failing_model = env_no_model\<lparr>url_model := Some (\<lambda>row. Inl ModelError)\<rparr>"

definition model_always_phishing :: "feature_row \<Rightarrow> py_error + real" where
  "model_always_phishing row = Inr 0.99"

text \<open>The character with a given code, bit by bit, so that numerals evaluate.\<close>

lemma char_of_nat_bits:
  "char_of (n :: nat) =
     Char (odd n) (odd (n div 2)) (odd (n div 4)) (odd (n div 8)) (odd (n div 16))
       (odd (n div 32)) (odd (n div 64)) (odd (n div 128))"
  by (simp add: char_of_def bit_iff_odd)

lemmas text_defs =
  isdigit_def isupper_def isspace_def lower_char_def lower_def strip_def
  startswith_def endswith_def count_char_def is_word_char_def url_char_def scheme_len_def
  char_of_nat_bits Let_def

lemmas pipeline_defs =
  meta_row_def extract_email_meta_features_def check_email_unsafe_by_rules_def
  suspicious_score_def predict_email_with_model_def extract_urls_def
  parse_domain_and_path_def normalize_domain_for_check_def is_known_safe_domain_def
  build_model_ready_url_features_def predict_url_from_features_def predict_url_def
  predict_urls_in_text_def hybrid_predict_def

lemmas example_defs =
  urlparse_examples_def env_no_model_def env_failing_model_def model_always_phishing_def

section \<open>Properties of the meta-feature extractor\<close>

lemma ratio_bounds:
  "0 \<le> real (length (filter P t)) / real (max 1 (length t)) \<and>
   real (length (filter P t)) / real (max 1 (length t)) \<le> 1"
proof -
  have "length (filter P t) \<le> length t"
    by simp
  then have "real (length (filter P t)) \<le> real (max 1 (length t))"
    by linarith
  moreover have "0 < real (max 1 (length t))"
    by linarith
  ultimately show ?thesis
    by (simp only: divide_le_eq_1_pos) simp
qed

text \<open>
  Claim C9. For every text \<open>t\<close> the extracted \<open>digit_ratio\<close> and \<open>upper_ratio\<close> lie in
  [0,1] and the three counts (exclamation marks, URL tokens, urgent terms) are
  non-negative; for the empty text both ratios are 0, the divisor being
  \<open>max(1, length)\<close>.
\<close>

theorem meta_features_bounds:
  "(let m = hd (extract_email_meta_features e [t]) in
      0 \<le> digit_ratio m \<and> digit_ratio m \<le> 1 \<and>
      0 \<le> upper_ratio m \<and> upper_ratio m \<le> 1 \<and>
      0 \<le> num_exclam m \<and> 0 \<le> num_urls m \<and> 0 \<le> num_urgent_terms m \<and>
      (length t = 0 \<longrightarrow> digit_ratio m = 0 \<and> upper_ratio m = 0))"
  using ratio_bounds [of isdigit t] ratio_bounds [of isupper t]
  by (simp add: extract_email_meta_features_def meta_row_def Let_def)

theorem meta_features_bounds_witness:
  "(let m = hd (extract_email_meta_features
                  \<lparr>SAFE_URLS = [], EMAIL_UNSAFE_PHRASES = [], url_model = None,
                   urlparse = (\<lambda>u. Inl ValueError)\<rparr> [''''])
    in length '''' = 0 \<and> digit_ratio m = 0 \<and> upper_ratio m = 0)"
  using meta_features_bounds
    [of "\<lparr>SAFE_URLS = [], EMAIL_UNSAFE_PHRASES = [], url_model = None,
          urlparse = (\<lambda>u. Inl ValueError)\<rparr>" "''''"]
  by (simp add: Let_def)











section \<open>Properties of the email classifier\<close>

text \<open>
  Claim C1 asks that the probability of every detection result lies in [0,1]. On the
  heuristic path of \<open>predict_email_with_model\<close> it does not: with the phrase store
  \<open>verify\<close>, \<open>urgent\<close>, the text \<open>WIN 1000000 NOW!!!!\<close> matches no phrase, its digit
  ratio 7/19, upper-case ratio 6/19 and four exclamation marks add up to the score
  0.55, and the result is labelled \<open>Phishing Email\<close> with probability 0.6 + 0.55 = 1.15.
  The rule path of the same function caps its probability at 0.98.
\<close>

theorem heuristic_probability_above_one:
  "check_email_unsafe_by_rules env_no_model ''WIN 1000000 NOW!!!!'' = [] \<and>
   label (predict_email_with_model env_no_model ''WIN 1000000 NOW!!!!'') = ''Phishing Email'' \<and>
   probability (predict_email_with_model env_no_model ''WIN 1000000 NOW!!!!'') = 1.15 \<and>
   \<not> probability (predict_email_with_model env_no_model ''WIN 1000000 NOW!!!!'') \<le> 1"
  by (simp add: text_defs pipeline_defs example_defs)

text \<open>
  Claim C4. When the rule matcher finds at least one phrase, \<open>predict_email_with_model\<close>
  returns \<open>binary_pred\<close> 1, label \<open>Phishing Email\<close> and the probability
  0.85 + 0.05 times the number of matched phrases, capped at 0.98; the probability lies
  in [0.85, 0.98], and a text (under any store) with at least as many matched phrases
  gets at least this probability.
\<close>

theorem rule_path_probability:
  assumes "check_email_unsafe_by_rules e t \<noteq> []"
  shows "binary_pred (predict_email_with_model e t) = 1 \<and>
         label (predict_email_with_model e t) = ''Phishing Email'' \<and>
         probability (predict_email_with_model e t) =
           min (0.85 + 0.05 * real (length (check_email_unsafe_by_rules e t))) 0.98 \<and>
         0.85 \<le> probability (predict_email_with_model e t) \<and>
         probability (predict_email_with_model e t) \<le> 0.98 \<and>
         (\<forall>e' t'. length (check_email_unsafe_by_rules e t)
                    \<le> length (check_email_unsafe_by_rules e' t') \<longrightarrow>
                  probability (predict_email_with_model e t)
                    \<le> probability (predict_email_with_model e' t'))"
proof -
  have p: "probability (predict_email_with_model e' t') =
             min (0.85 + 0.05 * real (length (check_email_unsafe_by_rules e' t'))) 0.98"
    if "check_email_unsafe_by_rules e' t' \<noteq> []" for e' t'
    using that by (simp add: predict_email_with_model_def Let_def)
  have b: "binary_pred (predict_email_with_model e t) = 1"
    using assms by (simp add: predict_email_with_model_def Let_def)
  have l: "label (predict_email_with_model e t) = ''Phishing Email''"
    using assms by (simp add: predict_email_with_model_def Let_def)
  have lo: "0.85 \<le> probability (predict_email_with_model e t)"
    unfolding p [OF assms] by (simp add: min_def)
  have hi: "probability (predict_email_with_model e t) \<le> 0.98"
    unfolding p [OF assms] by (rule min.cobounded2)
  have mono: "\<forall>e' t'. length (check_email_unsafe_by_rules e t)
                        \<le> length (check_email_unsafe_by_rules e' t') \<longrightarrow>
                probability (predict_email_with_model e t)
                  \<le> probability (predict_email_with_model e' t')"
  proof (intro allI impI)
    fix e' t'
    assume le: "length (check_email_unsafe_by_rules e t)
                  \<le> length (check_email_unsafe_by_rules e' t')"
    from assms have "0 < length (check_email_unsafe_by_rules e t)"
      by simp
    with le have ne: "check_email_unsafe_by_rules e' t' \<noteq> []"
      by auto
    from le have "real (length (check_email_unsafe_by_rules e t))
                    \<le> real (length (check_email_unsafe_by_rules e' t'))"
      by simp
    then show "probability (predict_email_with_model e t)
                 \<le> probability (predict_email_with_model e' t')"
      unfolding p [OF assms] p [OF ne] by (simp add: min_def)
  qed
  from b l p [OF assms] lo hi mono show ?thesis
    by (intro conjI)
qed

theorem rule_path_probability_witness:
  "check_email_unsafe_by_rules env_no_model ''Please verify your account'' \<noteq> [] \<and>
   binary_pred (predict_email_with_model env_no_model ''Please verify your account'') = 1 \<and>
   label (predict_email_with_model env_no_model ''Please verify your account'') = ''Phishing Email'' \<and>
   probability (predict_email_with_model env_no_model ''Please verify your account'') = 0.9 \<and>
   probability (predict_email_with_model env_no_model ''Please verify your account'')
     \<le> probability (predict_email_with_model env_no_model ''URGENT: verify your password'')"
proof -
  have h: "check_email_unsafe_by_rules env_no_model ''Please verify your account'' \<noteq> []"
    by (simp add: text_defs check_email_unsafe_by_rules_def example_defs)
  have n1: "length (check_email_unsafe_by_rules env_no_model ''Please verify your account'') = 1"
    by (simp add: text_defs check_email_unsafe_by_rules_def example_defs)
  have n2: "length (check_email_unsafe_by_rules env_no_model ''URGENT: verify your password'') = 2"
    by (simp add: text_defs check_email_unsafe_by_rules_def example_defs)
  show ?thesis
    using h rule_path_probability [OF h] n1 n2 by simp
qed


section \<open>Properties of the domain whitelist\<close>

lemma safe_urls_loop_iff:
  "safe_urls_loop d ss \<longleftrightarrow> (\<exists>s\<in>set ss. d = s \<or> suffix (''.'' @ s) d)"
  by (induction ss) (auto simp: endswith_def)

text \<open>
  With the single trusted entry \<open>bank.com\<close> the query \<open>sub.bank.com\<close> is whitelisted
  and the query \<open>fakebank.com\<close> is not.
\<close>

lemma whitelist_suffix_examples:
  assumes "SAFE_URLS e = [''bank.com'']"
  shows "is_known_safe_domain e ''sub.bank.com'' \<and> \<not> is_known_safe_domain e ''fakebank.com''"
proof -
  have s: "normalize_domain_for_check ''sub.bank.com'' = ''sub.bank.com''"
    by (simp add: text_defs normalize_domain_for_check_def)
  have f: "normalize_domain_for_check ''fakebank.com'' = ''fakebank.com''"
    by (simp add: text_defs normalize_domain_for_check_def)
  show ?thesis
    using assms by (simp add: is_known_safe_domain_def safe_urls_loop_iff s f suffix_to_prefix)
qed

text \<open>
  Claim C5 says that membership is decided on the domain with its trailing port, the
  text after the last colon, stripped. \<open>normalize_domain_for_check\<close> drops the port with
  \<open>split(":")[0]\<close>, which keeps the text before the first colon instead. The URL
  \<open>http://bank.com:x@evil.com:80/\<close> has the network location \<open>bank.com:x@evil.com:80\<close>
  (user information \<open>bank.com:x\<close>, host \<open>evil.com\<close>, port 80): the code normalises it to
  \<open>bank.com\<close>, finds it whitelisted, and \<open>predict_url\<close> answers \<open>Safe URL\<close> with
  confidence 0.98 for a URL whose host is \<open>evil.com\<close>. With the port stripped as the
  claim says, the domain is \<open>bank.com:x@evil.com\<close>, which neither equals a trusted
  entry nor ends with a dot followed by one.
\<close>

theorem userinfo_netloc_whitelisted:
  "parse_domain_and_path env_no_model ''http://bank.com:x@evil.com:80/''
     = (''bank.com:x@evil.com:80'', [], []) \<and>
   normalize_domain_for_check ''bank.com:x@evil.com:80'' = ''bank.com'' \<and>
   is_known_safe_domain env_no_model ''bank.com:x@evil.com:80'' \<and>
   fst (predict_url env_no_model ''http://bank.com:x@evil.com:80/'') =
     \<lparr>label = ''Safe URL'', binary_pred = 0, confidence = 0.98,
      url = ''http://bank.com:x@evil.com:80/''\<rparr> \<and>
   spec_normalize_domain ''bank.com:x@evil.com:80'' = ''bank.com:x@evil.com'' \<and>
   \<not> spec_is_safe_domain (SAFE_URLS env_no_model) ''bank.com:x@evil.com:80''"
proof -
  have pd: "parse_domain_and_path env_no_model ''http://bank.com:x@evil.com:80/''
              = (''bank.com:x@evil.com:80'', [], [])"
    by (simp add: text_defs parse_domain_and_path_def example_defs)
  have a: "normalize_domain_for_check ''bank.com:x@evil.com:80'' = ''bank.com''"
    by (simp add: text_defs normalize_domain_for_check_def)
  have k: "is_known_safe_domain env_no_model ''bank.com:x@evil.com:80''"
    by (simp add: is_known_safe_domain_def a example_defs endswith_def suffix_to_prefix)
  have r: "fst (predict_url env_no_model ''http://bank.com:x@evil.com:80/'') =
             \<lparr>label = ''Safe URL'', binary_pred = 0, confidence = 0.98,
              url = ''http://bank.com:x@evil.com:80/''\<rparr>"
    using k by (simp add: predict_url_def pd)
  have b: "spec_normalize_domain ''bank.com:x@evil.com:80'' = ''bank.com:x@evil.com''"
    by (simp add: text_defs spec_normalize_domain_def spec_strip_port_def)
  have n: "\<not> spec_is_safe_domain (SAFE_URLS env_no_model) ''bank.com:x@evil.com:80''"
    by (simp add: spec_is_safe_domain_def b example_defs suffix_to_prefix)
  from pd a k r b n show ?thesis
    by (intro conjI)
qed

section \<open>Properties of the URL classifier\<close>

text \<open>
  Claim C2. For a URL whose domain is whitelisted, \<open>predict_url\<close> returns label
  \<open>Safe URL\<close>, \<open>binary_pred\<close> 0 and confidence 0.98 whatever \<open>url_model\<close> holds (no
  model, a model with any answers, a model that raises), and it does not invoke the
  model: the list of invocations is empty.
\<close>

theorem whitelist_precedence:
  assumes "is_known_safe_domain e (fst (parse_domain_and_path e u))"
  shows "predict_url (e\<lparr>url_model := m\<rparr>) u =
           (\<lparr>label = ''Safe URL'', binary_pred = 0, confidence = 0.98, url = u\<rparr>, [])"
proof -
  have "parse_domain_and_path (e\<lparr>url_model := m\<rparr>) u = parse_domain_and_path e u"
    by (simp add: parse_domain_and_path_def)
  moreover have "is_known_safe_domain (e\<lparr>url_model := m\<rparr>) = is_known_safe_domain e"
    by (simp add: is_known_safe_domain_def fun_eq_iff)
  moreover obtain d a b where "parse_domain_and_path e u = (d, a, b)"
    by (cases "parse_domain_and_path e u") auto
  ultimately show ?thesis
    using assms by (simp add: predict_url_def)
qed

theorem whitelist_precedence_witness:
  "is_known_safe_domain env_no_model (fst (parse_domain_and_path env_no_model ''http://paypal.com/login'')) \<and>
   predict_url (env_no_model\<lparr>url_model := Some model_always_phishing\<rparr>) ''http://paypal.com/login'' =
     (\<lparr>label = ''Safe URL'', binary_pred = 0, confidence = 0.98, url = ''http://paypal.com/login''\<rparr>, [])"
proof -
  have h: "is_known_safe_domain env_no_model
             (fst (parse_domain_and_path env_no_model ''http://paypal.com/login''))"
    by (simp add: text_defs pipeline_defs example_defs)
  show ?thesis
    using h whitelist_precedence [OF h, of "Some model_always_phishing"] by simp
qed

text \<open>
  Claim C6. For a URL whose domain is not whitelisted: without a loaded model
  \<open>predict_url\<close> returns exactly label \<open>Suspicious URL\<close>, \<open>binary_pred\<close> -1, confidence
  0.5 (with the URL), which is no safe verdict; with a loaded model whose invocation
  raises, the call still returns a result, with confidence 0.5, one of the two non-safe
  labels and the matching \<open>binary_pred\<close>. \<open>predict_url\<close> is a total function: the
  exception of the model is the \<open>Inl\<close> answer absorbed inside, none reaches the caller.
\<close>

theorem no_model_or_failed_inference:
  assumes "\<not> is_known_safe_domain e (fst (parse_domain_and_path e u))"
  shows "(url_model e = None \<longrightarrow>
            fst (predict_url e u) =
              \<lparr>label = ''Suspicious URL'', binary_pred = - 1, confidence = 0.5, url = u\<rparr>) \<and>
         (\<forall>f err. url_model e = Some f \<and> f (build_model_ready_url_features e u) = Inl err \<longrightarrow>
            confidence (fst (predict_url e u)) = 0.5 \<and>
            url (fst (predict_url e u)) = u \<and>
            label (fst (predict_url e u)) \<in> {''Suspicious URL'', ''Phishing URL''} \<and>
            binary_pred (fst (predict_url e u)) \<in> {- 1, 1})"
proof -
  obtain d a b where pd: "parse_domain_and_path e u = (d, a, b)"
    by (cases "parse_domain_and_path e u") auto
  with assms have ns: "\<not> is_known_safe_domain e d"
    by simp
  show ?thesis
    using ns by (simp add: predict_url_def predict_url_from_features_def pd Let_def)
qed

theorem no_model_or_failed_inference_witness:
  "\<not> is_known_safe_domain env_no_model
       (fst (parse_domain_and_path env_no_model ''http://evil.example/x'')) \<and>
   url_model env_no_model = None \<and>
   fst (predict_url env_no_model ''http://evil.example/x'') =
     \<lparr>label = ''Suspicious URL'', binary_pred = - 1, confidence = 0.5,
      url = ''http://evil.example/x''\<rparr> \<and>
   \<not> is_known_safe_domain env_failing_model
       (fst (parse_domain_and_path env_failing_model ''http://evil.example/x'')) \<and>
   (\<exists>f err. url_model env_failing_model = Some f \<and>
      f (build_model_ready_url_features env_failing_model ''http://evil.example/x'') = Inl err) \<and>
   confidence (fst (predict_url env_failing_model ''http://evil.example/x'')) = 0.5"
proof -
  have h1: "\<not> is_known_safe_domain env_no_model
               (fst (parse_domain_and_path env_no_model ''http://evil.example/x''))"
    by (simp add: text_defs pipeline_defs example_defs suffix_to_prefix)
  have h2: "\<not> is_known_safe_domain env_failing_model
               (fst (parse_domain_and_path env_failing_model ''http://evil.example/x''))"
    by (simp add: text_defs pipeline_defs example_defs suffix_to_prefix)
  have m1: "url_model env_no_model = None"
    by (simp add: example_defs)
  have m2: "url_model env_failing_model = Some (\<lambda>row. Inl ModelError) \<and>
            (\<lambda>row. Inl ModelError)
              (build_model_ready_url_features env_failing_model ''http://evil.example/x'')
            = Inl ModelError"
    by (simp add: example_defs)
  show ?thesis
    using h1 h2 m1 m2
      no_model_or_failed_inference [OF h1]
      no_model_or_failed_inference [OF h2]
    by auto
qed

text \<open>
  Claim C10. For a URL whose domain is not whitelisted, a loaded model whose invocation
  raises gives the fallback probability 0.5, which is not below 0.5: the result is label
  \<open>Phishing URL\<close>, \<open>binary_pred\<close> 1, confidence 0.5, after exactly one invocation of
  the model.
\<close>

theorem failed_inference_is_phishing:
  assumes "\<not> is_known_safe_domain e (fst (parse_domain_and_path e u))"
      and "url_model e = Some f"
      and "f (build_model_ready_url_features e u) = Inl err"
  shows "predict_url e u =
           (\<lparr>label = ''Phishing URL'', binary_pred = 1, confidence = 0.5, url = u\<rparr>,
            [build_model_ready_url_features e u])"
proof -
  obtain d a b where pd: "parse_domain_and_path e u = (d, a, b)"
    by (cases "parse_domain_and_path e u") auto
  with assms(1) have ns: "\<not> is_known_safe_domain e d"
    by simp
  show ?thesis
    using ns assms(2,3) by (simp add: predict_url_def predict_url_from_features_def pd Let_def)
qed

theorem failed_inference_is_phishing_witness:
  "\<not> is_known_safe_domain env_failing_model
       (fst (parse_domain_and_path env_failing_model ''http://evil.example/x'')) \<and>
   url_model env_failing_model = Some (\<lambda>row. Inl ModelError) \<and>
   fst (predict_url env_failing_model ''http://evil.example/x'') =
     \<lparr>label = ''Phishing URL'', binary_pred = 1, confidence = 0.5,
      url = ''http://evil.example/x''\<rparr>"
proof -
  have h: "\<not> is_known_safe_domain env_failing_model
               (fst (parse_domain_and_path env_failing_model ''http://evil.example/x''))"
    by (simp add: text_defs pipeline_defs example_defs suffix_to_prefix)
  have m: "url_model env_failing_model = Some (\<lambda>row. Inl ModelError)"
    by (simp add: example_defs)
  have r: "(\<lambda>row. Inl ModelError)
             (build_model_ready_url_features env_failing_model ''http://evil.example/x'')
           = Inl ModelError"
    by simp
  show ?thesis
    using h m failed_inference_is_phishing [OF h m r] by simp
qed


section \<open>Properties of the hybrid fuser\<close>

text \<open>
  Claim C3. If the per-URL results of \<open>hybrid_predict\<close> contain a result labelled
  \<open>Safe URL\<close>, the fused verdict is \<open>Safe Content\<close> with \<open>final_proba\<close> 0.98 and
  \<open>final_binary_pred\<close> 0, whatever the email branch says. The example is a text with
  a phishing phrase, on which the email classifier alone answers 1, and a whitelisted
  link.
\<close>

theorem safe_url_override:
  assumes "list_ex (\<lambda>u. label u = ''Safe URL'') (url_branch (fst (hybrid_predict e t)))"
  shows "final_label (fst (hybrid_predict e t)) = ''Safe Content'' \<and>
         final_proba (fst (hybrid_predict e t)) = 0.98 \<and>
         final_binary_pred (fst (hybrid_predict e t)) = 0"
proof -
  obtain rs cs where pu: "predict_urls_in_text e t = (rs, cs)"
    by (cases "predict_urls_in_text e t") auto
  have "url_branch (fst (hybrid_predict e t)) = rs"
    by (simp add: hybrid_predict_def Let_def pu)
  with assms have "list_ex (\<lambda>u. label u = ''Safe URL'') rs"
    by simp
  then show ?thesis
    by (simp add: hybrid_predict_def Let_def pu)
qed

theorem safe_url_override_witness:
  "list_ex (\<lambda>u. label u = ''Safe URL'')
     (url_branch (fst (hybrid_predict env_no_model ''urgent http://paypal.com/login''))) \<and>
   binary_pred (predict_email_with_model env_no_model ''urgent http://paypal.com/login'') = 1 \<and>
   final_label (fst (hybrid_predict env_no_model ''urgent http://paypal.com/login'')) = ''Safe Content'' \<and>
   final_proba (fst (hybrid_predict env_no_model ''urgent http://paypal.com/login'')) = 0.98 \<and>
   final_binary_pred (fst (hybrid_predict env_no_model ''urgent http://paypal.com/login'')) = 0"
proof -
  have u: "extract_urls ''urgent http://paypal.com/login'' = [''http://paypal.com/login'']"
    by (simp add: text_defs extract_urls_def)
  have p: "predict_url env_no_model ''http://paypal.com/login'' =
             (\<lparr>label = ''Safe URL'', binary_pred = 0, confidence = 0.98,
               url = ''http://paypal.com/login''\<rparr>, [])"
    by (simp add: text_defs pipeline_defs example_defs)
  have ub: "url_branch (fst (hybrid_predict env_no_model ''urgent http://paypal.com/login'')) =
              [\<lparr>label = ''Safe URL'', binary_pred = 0, confidence = 0.98,
                url = ''http://paypal.com/login''\<rparr>]"
    by (simp add: hybrid_predict_def predict_urls_in_text_def Let_def u p)
  have h: "list_ex (\<lambda>u. label u = ''Safe URL'')
             (url_branch (fst (hybrid_predict env_no_model ''urgent http://paypal.com/login'')))"
    by (simp add: ub)
  have b: "binary_pred (predict_email_with_model env_no_model ''urgent http://paypal.com/login'') = 1"
    by (simp add: text_defs pipeline_defs example_defs)
  show ?thesis
    using h b safe_url_override [OF h] by simp
qed

section \<open>Properties of the explanation generator\<close>

text \<open>
  Claim C7, as the code has it. The explanations are never empty and their last line is
  the confidence line. Its value is the \<open>probability\<close> field if present, else the
  \<open>confidence\<close> field, else the \<open>final_proba\<close> field, else 0; the tier is High when
  the value is above 0.9, Moderate when it is above 0.7 and at most 0.9, and Lower
  otherwise.
\<close>

theorem confidence_tier_line:
  "generate_ai_explanation mode result input_text mf \<noteq> [] \<and>
   last (generate_ai_explanation mode result input_text mf) =
     (let c = (case get_probability result of
                 Some p \<Rightarrow> p
               | None \<Rightarrow>
                   (case get_confidence result of
                      Some c \<Rightarrow> c
                    | None \<Rightarrow> (case get_final_proba result of Some f \<Rightarrow> f | None \<Rightarrow> 0)))
      in if c > 0.9 then HighConfidence c
         else if c > 0.7 then ModerateConfidence c
         else LowerConfidence c)"
  unfolding generate_ai_explanation_def Let_def
  by (simp only: last_snoc append_is_Nil_conv not_Cons_self2 simp_thms)

theorem confidence_tier_line_witness:
  "last (generate_ai_explanation ''url''
           \<lparr>get_binary_pred = Some 1, get_probability = None, get_confidence = Some 0.95,
            get_final_proba = Some 0.2, get_final_binary_pred = None,
            get_email_branch = None, get_url_branch = None\<rparr> ''http://evil.example/x'' None)
   = HighConfidence 0.95"
  using confidence_tier_line [of "''url''"
      "\<lparr>get_binary_pred = Some 1, get_probability = None, get_confidence = Some 0.95,
        get_final_proba = Some 0.2, get_final_binary_pred = None,
        get_email_branch = None, get_url_branch = None\<rparr>" "''http://evil.example/x''" None]
  by simp

text \<open>
  Claim C7 as stated puts the value 0.9 itself in the High tier. The email classifier
  returns the probability 0.85 + 0.05 = 0.9 for a text with one matched phrase, and the
  explanation of that result ends with the Moderate line.
\<close>

theorem confidence_tier_counterexample:
  "probability (predict_email_with_model env_no_model ''Please verify your account'') = 0.9 \<and>
   tier_of (last (generate_ai_explanation ''email''
      (email_dict (predict_email_with_model env_no_model ''Please verify your account''))
      ''Please verify your account''
      (Some (meta (predict_email_with_model env_no_model ''Please verify your account'')))))
     = Some Moderate \<and>
   spec_confidence_tier 0.9 = High"
proof -
  have m: "check_email_unsafe_by_rules env_no_model ''Please verify your account'' = [''verify'']"
    by (simp add: text_defs check_email_unsafe_by_rules_def example_defs)
  have p: "probability (predict_email_with_model env_no_model ''Please verify your account'') = 0.9"
    by (simp add: predict_email_with_model_def m Let_def)
  have g: "get_probability
             (email_dict (predict_email_with_model env_no_model ''Please verify your account''))
           = Some 0.9"
    using p by (simp add: email_dict_def)
  show ?thesis
    unfolding generate_ai_explanation_def Let_def
    by (simp add: p g spec_confidence_tier_def)
qed

end
